theory Spec2Isabelle
  imports Main "HOL-Library.Word" "HOL-Library.Sublist"
begin

section \<open>JavaScript strings\<close>

text \<open>
  A JavaScript string is a sequence of 16-bit code units. The regular expressions of
  \<open>public/script.js\<close> carry no \<open>u\<close> flag, so they match code unit by code unit.
\<close>

type_synonym code_unit = "16 word"
type_synonym jsstring = "code_unit list"

definition js :: "string \<Rightarrow> jsstring" where
  \<comment> \<open>an ASCII literal of the source as code units\<close>
  "js s = map (\<lambda>c. of_nat (of_char c)) s"

definition LineTerminator :: "code_unit \<Rightarrow> bool" where
  \<comment> \<open>what \<open>.\<close> refuses without the \<open>s\<close> flag, and what \<open>^\<close> and \<open>$\<close> look for with \<open>m\<close>:
      LF, CR, U+2028, U+2029\<close>
  "LineTerminator c \<longleftrightarrow> c = 0x0A \<or> c = 0x0D \<or> c = 0x2028 \<or> c = 0x2029"

section \<open>The response formatter\<close>

subsection \<open>Global replacement of a literal pattern\<close>

text \<open>
  \<open>s.replace(/pat/g, rep)\<close> for a pattern without operators and a replacement without
  \<open>$\<close>: scan from the left, replace a match and go on after it, otherwise keep one code
  unit and go on. The empty pattern matches before every code unit and at the end.
\<close>

function replace_all :: "jsstring \<Rightarrow> jsstring \<Rightarrow> jsstring \<Rightarrow> jsstring" where
  "replace_all [] rep xs = rep @ concat (map (\<lambda>c. c # rep) xs)"
| "replace_all (p # ps) rep [] = []"
| "replace_all (p # ps) rep (c # cs) =
     (if prefix (p # ps) (c # cs)
      then rep @ replace_all (p # ps) rep (drop (length ps) cs)
      else c # replace_all (p # ps) rep cs)"
  by pat_completeness auto
termination
  by (relation "measure (\<lambda>(pat, rep, xs). length xs)") auto

subsection \<open>Bold: \<open>/\*\*(.*?)\*\*/g\<close>\<close>

fun lazy_until_stars :: "jsstring \<Rightarrow> (jsstring \<times> jsstring) option" where
  \<comment> \<open>\<open>(.*?)\*\*\<close> at the head of the string: the shortest group of code units other
      than line terminators that is followed by two asterisks, and what follows them\<close>
  "lazy_until_stars [] = None"
| "lazy_until_stars (c # cs) =
     (if prefix (js ''**'') (c # cs) then Some ([], drop 2 (c # cs))
      else if LineTerminator c then None
      else (case lazy_until_stars cs of
              None \<Rightarrow> None
            | Some (g, r) \<Rightarrow> Some (c # g, r)))"

lemma lazy_until_stars_shorter:
  "lazy_until_stars xs = Some (g, r) \<Longrightarrow> length r < length xs"
  by (induction xs arbitrary: g) (auto split: if_splits option.splits)

function bold :: "jsstring \<Rightarrow> jsstring" where
  "bold [] = []"
| "bold (c # cs) =
     (if prefix (js ''**'') (c # cs)
      then (case lazy_until_stars (drop 2 (c # cs)) of
              Some (g, r) \<Rightarrow> js ''<strong>'' @ g @ js ''</strong>'' @ bold r
            | None \<Rightarrow> c # bold cs)
      else c # bold cs)"
  by pat_completeness auto
termination
proof (relation "measure length")
  fix c :: code_unit and cs x2 x y
  assume "lazy_until_stars (drop 2 (c # cs)) = Some x2" and "(x, y) = x2"
  then have "length y < length (drop 2 (c # cs))"
    using lazy_until_stars_shorter [of "drop 2 (c # cs)" x y] by simp
  then show "(y, c # cs) \<in> measure length" by simp
qed auto

subsection \<open>List items: \<open>/^\* (.*$)/gm\<close>\<close>

text \<open>
  The flag tells whether the position is the start of the input or follows a line
  terminator, which is where \<open>^\<close> matches under \<open>m\<close>. The group \<open>.*$\<close> runs to the
  next line terminator or to the end; the scan goes on there, which is not a line start.
\<close>

function list_items :: "bool \<Rightarrow> jsstring \<Rightarrow> jsstring" where
  "list_items at_start [] = []"
| "list_items at_start (c # cs) =
     (if at_start \<and> prefix (js ''* '') (c # cs)
      then js ''<li>'' @ takeWhile (\<lambda>d. \<not> LineTerminator d) (drop 2 (c # cs)) @ js ''</li>''
           @ list_items False (dropWhile (\<lambda>d. \<not> LineTerminator d) (drop 2 (c # cs)))
      else c # list_items (LineTerminator c) cs)"
  by pat_completeness auto
termination
proof (relation "measure (\<lambda>(b, xs). length xs)")
  fix at_start :: bool and c :: code_unit and cs :: jsstring
  have "length (dropWhile (\<lambda>d. \<not> LineTerminator d) (drop 2 (c # cs))) \<le> length (drop 2 (c # cs))"
    by (rule length_dropWhile_le)
  then show "((False, dropWhile (\<lambda>d. \<not> LineTerminator d) (drop 2 (c # cs))), at_start, c # cs)
               \<in> measure (\<lambda>(b, xs). length xs)"
    by simp
qed auto

subsection \<open>The list container: \<open>/(<li>.*<\/li>)/gs\<close>\<close>

fun greedy_until :: "jsstring \<Rightarrow> jsstring \<Rightarrow> (jsstring \<times> jsstring) option" where
  \<comment> \<open>\<open>.*pat\<close> under \<open>s\<close> at the head of the string: the longest group of any code
      units that is followed by \<open>pat\<close>, and what follows \<open>pat\<close>\<close>
  "greedy_until pat [] = (if pat = [] then Some ([], []) else None)"
| "greedy_until pat (c # cs) =
     (case greedy_until pat cs of
        Some (g, r) \<Rightarrow> Some (c # g, r)
      | None \<Rightarrow> if prefix pat (c # cs) then Some ([], drop (length pat) (c # cs)) else None)"

lemma greedy_until_shorter:
  "greedy_until pat xs = Some (g, r) \<Longrightarrow> length r \<le> length xs"
  by (induction xs arbitrary: g) (auto split: if_splits option.splits)

function wrap_lists :: "jsstring \<Rightarrow> jsstring" where
  "wrap_lists [] = []"
| "wrap_lists (c # cs) =
     (if prefix (js ''<li>'') (c # cs)
      then (case greedy_until (js ''</li>'') (drop 4 (c # cs)) of
              Some (g, r) \<Rightarrow>
                js ''<ul>'' @ (js ''<li>'' @ g @ js ''</li>'') @ js ''</ul>'' @ wrap_lists r
            | None \<Rightarrow> c # wrap_lists cs)
      else c # wrap_lists cs)"
  by pat_completeness auto
termination
proof (relation "measure length")
  fix c :: code_unit and cs x2 x y
  assume "greedy_until (js ''</li>'') (drop 4 (c # cs)) = Some x2" and "(x, y) = x2"
  then have "length y \<le> length (drop 4 (c # cs))"
    using greedy_until_shorter [of "js ''</li>''" "drop 4 (c # cs)" x y] by simp
  then show "(y, c # cs) \<in> measure length" by simp
qed auto

subsection \<open>\<open>formatGeminiResponse\<close>\<close>

definition formatGeminiResponse :: "jsstring \<Rightarrow> jsstring" where
  "formatGeminiResponse text =
     (let html = replace_all (js ''>'') (js ''&gt;'') (replace_all (js ''<'') (js ''&lt;'') text);
          html = bold html;
          html = list_items True html;
          html = wrap_lists html;
          html = replace_all [0x0A] (js ''<br>'') html;
          html = replace_all (js ''<br><ul>'') (js ''<ul>'') html;
          html = replace_all (js ''</ul><br>'') (js ''</ul>'') html
      in html)"


section \<open>The page and the host\<close>

text \<open>
  An element of the transcript keeps its class list and the way its content was last
  assigned: through \<open>innerHTML\<close> (the string is parsed as markup) or through
  \<open>textContent\<close> (the string becomes one text node).
\<close>

datatype content = InnerHTML jsstring | TextContent jsstring

record element =
  classes :: "jsstring list"
  content :: content

record request =
  url :: jsstring
  http_method :: jsstring
  headers :: "(jsstring \<times> jsstring) list"
  body :: jsstring

text \<open>
  What the handler does to its surroundings, in order. Elements are named by their
  position in the chat box: every element the script creates is appended at once, and
  nothing is ever removed.
\<close>

datatype effect =
    Prevent_default
  | Assign_innerHTML nat jsstring
  | Assign_textContent nat jsstring
  | Scroll_to_bottom
  | Fetch request
  | Console_error jsstring

record page =
  input_value :: jsstring
  chat_box :: "element list"
  log :: "effect list"

text \<open>
  A value read from a JSON body. Numbers are IEEE doubles; the handler only asks whether
  one is falsy and what its string conversion is, and both are left to the host.
  \<open>undefined\<close> is \<open>None\<close> of the option type.
\<close>

datatype 'n json =
    JNull
  | JBool bool
  | JNum 'n
  | JStr jsstring
  | JArr "'n json list"
  | JObj "(jsstring \<times> 'n json) list"

record 'n host =
  number_truthy :: "'n \<Rightarrow> bool"
    \<comment> \<open>\<open>ToBoolean\<close> of a number: false for zero\<close>
  ToString_other :: "'n json \<Rightarrow> jsstring + jsstring"
    \<comment> \<open>\<open>ToString\<close> of a value that is not a string: the string, or (\<open>Inl\<close>) the
        message of the TypeError that the conversion throws\<close>
  not_a_function :: jsstring
    \<comment> \<open>the message of the TypeError thrown by calling a method that is missing\<close>

text \<open>What \<open>await fetch(...)\<close> and \<open>await response.json()\<close> give the handler.\<close>

datatype 'n body =
    Not_json jsstring   \<comment> \<open>\<open>response.json()\<close> rejects; the message of the rejection\<close>
  | Json "'n json"

datatype 'n fetch_result =
    Rejected jsstring   \<comment> \<open>\<open>fetch\<close> rejects; the message of the rejection\<close>
  | Responded nat "'n body"   \<comment> \<open>the status, and what \<open>response.json()\<close> gives\<close>

definition response_ok :: "nat \<Rightarrow> bool" where
  "response_ok status \<longleftrightarrow> 200 \<le> status \<and> status \<le> 299"

subsection \<open>Built-in operations the handler uses\<close>

definition WhiteSpace :: "code_unit \<Rightarrow> bool" where
  "WhiteSpace c \<longleftrightarrow>
     c = 0x09 \<or> c = 0x0B \<or> c = 0x0C \<or> c = 0x20 \<or> c = 0xA0 \<or> c = 0x1680
     \<or> (0x2000 \<le> c \<and> c \<le> 0x200A) \<or> c = 0x202F \<or> c = 0x205F \<or> c = 0x3000 \<or> c = 0xFEFF"

definition trimmed :: "code_unit \<Rightarrow> bool" where
  \<comment> \<open>what \<open>String.prototype.trim\<close> strips\<close>
  "trimmed c \<longleftrightarrow> WhiteSpace c \<or> LineTerminator c"

definition trim :: "jsstring \<Rightarrow> jsstring" where
  "trim s = rev (dropWhile trimmed (rev (dropWhile trimmed s)))"

fun truthy :: "'n host \<Rightarrow> 'n json option \<Rightarrow> bool" where
  "truthy h None = False"
| "truthy h (Some JNull) = False"
| "truthy h (Some (JBool b)) = b"
| "truthy h (Some (JNum n)) = number_truthy h n"
| "truthy h (Some (JStr s)) = (s \<noteq> [])"
| "truthy h (Some (JArr vs)) = True"
| "truthy h (Some (JObj kvs)) = True"

fun get_prop :: "'n json \<Rightarrow> jsstring \<Rightarrow> 'n json option" where
  \<comment> \<open>reading the property \<open>error\<close> or \<open>result\<close>: an own property of an object, and
      \<open>undefined\<close> on every other value (the source reads no property of \<open>null\<close>: one
      read is behind \<open>?.\<close>, the other behind \<open>&&\<close>)\<close>
  "get_prop (JObj kvs) k = map_of kvs k"
| "get_prop v k = None"

fun ToString :: "'n host \<Rightarrow> 'n json \<Rightarrow> jsstring + jsstring" where
  "ToString h (JStr s) = Inr s"
| "ToString h v = ToString_other h v"

function decimal :: "nat \<Rightarrow> jsstring" where
  \<comment> \<open>the string conversion of a non-negative integer\<close>
  "decimal n = (if n < 10 then [of_nat (48 + n)] else decimal (n div 10) @ [of_nat (48 + n mod 10)])"
  by pat_completeness auto
termination
  by (relation "measure id") auto

declare decimal.simps [simp del]

definition hex_digit :: "nat \<Rightarrow> code_unit" where
  "hex_digit d = (if d < 10 then of_nat (48 + d) else of_nat (87 + d))"

definition UnicodeEscape :: "code_unit \<Rightarrow> jsstring" where
  \<comment> \<open>backslash, u, four lowercase hexadecimal digits\<close>
  "UnicodeEscape c =
     [0x5C, 0x75, hex_digit (unat c div 4096), hex_digit (unat c div 256 mod 16),
      hex_digit (unat c div 16 mod 16), hex_digit (unat c mod 16)]"

definition quote_unit :: "code_unit \<Rightarrow> jsstring" where
  "quote_unit c =
     (if c = 0x08 then [0x5C, 0x62]
      else if c = 0x09 then [0x5C, 0x74]
      else if c = 0x0A then [0x5C, 0x6E]
      else if c = 0x0C then [0x5C, 0x66]
      else if c = 0x0D then [0x5C, 0x72]
      else if c = 0x22 then [0x5C, 0x22]
      else if c = 0x5C then [0x5C, 0x5C]
      else if c < 0x20 \<or> (0xD800 \<le> c \<and> c \<le> 0xDFFF) then UnicodeEscape c
      else [c])"

fun quote_units :: "jsstring \<Rightarrow> jsstring" where
  \<comment> \<open>a leading surrogate followed by a trailing one is a code point and is kept; a
      surrogate alone is escaped\<close>
  "quote_units [] = []"
| "quote_units [c] = quote_unit c"
| "quote_units (c # d # cs) =
     (if 0xD800 \<le> c \<and> c \<le> 0xDBFF \<and> 0xDC00 \<le> d \<and> d \<le> 0xDFFF
      then c # d # quote_units cs
      else quote_unit c @ quote_units (d # cs))"

definition QuoteJSONString :: "jsstring \<Rightarrow> jsstring" where
  "QuoteJSONString s = [0x22] @ quote_units s @ [0x22]"


section \<open>The submit handler\<close>

definition appendMessage :: "jsstring \<Rightarrow> jsstring \<Rightarrow> page \<Rightarrow> nat \<times> page" where
  "appendMessage sender htmlContent p =
     (let msgElement = length (chat_box p)
      in (msgElement,
          p\<lparr>chat_box := chat_box p @ [\<lparr>classes = [js ''message'', sender],
                                         content = InnerHTML htmlContent\<rparr>],
            log := log p @ [Assign_innerHTML msgElement htmlContent, Scroll_to_bottom]\<rparr>))"

definition chat_request :: "jsstring \<Rightarrow> request" where
  \<comment> \<open>the arguments of \<open>fetch\<close>; the body is \<open>JSON.stringify\<close> of an object with the one
      key \<open>message\<close>, an array of one object with the keys \<open>role\<close> and \<open>content\<close>\<close>
  "chat_request userMessage =
     \<lparr>url = js ''/api/chat'',
      http_method = js ''POST'',
      headers = [(js ''Content-Type'', js ''application/json'')],
      body = [0x7B] @ QuoteJSONString (js ''message'') @ js '':[''
             @ [0x7B] @ QuoteJSONString (js ''role'') @ js '':'' @ QuoteJSONString (js ''user'')
             @ js '','' @ QuoteJSONString (js ''content'') @ js '':'' @ QuoteJSONString userMessage
             @ [0x7D] @ js '']'' @ [0x7D]\<rparr>"

text \<open>
  The handler up to its first \<open>await\<close>: it returns the placeholder element when a
  request was sent, and nothing when the input was rejected.
\<close>

definition submit_begin :: "page \<Rightarrow> nat option \<times> page" where
  "submit_begin p0 =
     (let p = p0\<lparr>log := log p0 @ [Prevent_default]\<rparr>;
          userMessage = trim (input_value p)
      in if userMessage = [] then (None, p)
         else
           (let (u, p) = appendMessage (js ''user'') userMessage p;
                p = p\<lparr>input_value := []\<rparr>;
                (thinkingMessageElement, p) =
                   appendMessage (js ''bot'') (js ''Gemini sedang berpikir...'') p;
                p = p\<lparr>log := log p @ [Fetch (chat_request userMessage)]\<rparr>
            in (Some thinkingMessageElement, p)))"

definition set_innerHTML :: "nat \<Rightarrow> jsstring \<Rightarrow> page \<Rightarrow> page" where
  "set_innerHTML i s p =
     p\<lparr>chat_box := (chat_box p)[i := (chat_box p ! i)\<lparr>content := InnerHTML s\<rparr>],
       log := log p @ [Assign_innerHTML i s]\<rparr>"

definition set_textContent :: "nat \<Rightarrow> jsstring \<Rightarrow> page \<Rightarrow> page" where
  "set_textContent i s p =
     p\<lparr>chat_box := (chat_box p)[i := (chat_box p ! i)\<lparr>content := TextContent s\<rparr>],
       log := log p @ [Assign_textContent i s]\<rparr>"

definition errorMessage :: "'n host \<Rightarrow> nat \<Rightarrow> 'n body \<Rightarrow> 'n json" where
  \<comment> \<open>lines 84 and 85: \<open>errorData?.error || `Server responded with status ...`\<close>\<close>
  "errorMessage h status b =
     (let errorData = (case b of Not_json m \<Rightarrow> JNull | Json v \<Rightarrow> v);
          e = (case errorData of JNull \<Rightarrow> None | v \<Rightarrow> get_prop v (js ''error''))
      in case e of
           None \<Rightarrow> JStr (js ''Server responded with status '' @ decimal status)
         | Some v \<Rightarrow> if truthy h e then v
                     else JStr (js ''Server responded with status '' @ decimal status))"

text \<open>
  The body of \<open>try\<close> after the first \<open>await\<close>: \<open>Inl m\<close> is an error thrown with the
  message \<open>m\<close>, \<open>Inr p\<close> the page after a normal end. Nothing is written before a throw.
\<close>

definition try_block :: "'n host \<Rightarrow> nat \<Rightarrow> 'n fetch_result \<Rightarrow> page \<Rightarrow> jsstring + page" where
  "try_block h thinkingMessageElement r p =
     (case r of
        Rejected m \<Rightarrow> Inl m
      | Responded status b \<Rightarrow>
          if \<not> response_ok status
          then (case ToString h (errorMessage h status b) of Inl m \<Rightarrow> Inl m | Inr m \<Rightarrow> Inl m)
          else (case b of
                  Not_json m \<Rightarrow> Inl m
                | Json data \<Rightarrow>
                    if truthy h (Some data) \<and> truthy h (get_prop data (js ''result''))
                    then (case get_prop data (js ''result'') of
                            Some (JStr text) \<Rightarrow>
                              Inr (set_innerHTML thinkingMessageElement (formatGeminiResponse text) p)
                          | _ \<Rightarrow> Inl (not_a_function h))
                    else Inr (set_textContent thinkingMessageElement
                                (js ''Maaf, tidak ada respon yang diterima.'') p)))"

text \<open>The handler from its first \<open>await\<close> on: \<open>try\<close>, \<open>catch\<close>, \<open>finally\<close>.\<close>

definition submit_complete :: "'n host \<Rightarrow> nat \<Rightarrow> 'n fetch_result \<Rightarrow> page \<Rightarrow> page" where
  "submit_complete h thinkingMessageElement r p =
     (let p = (case try_block h thinkingMessageElement r p of
                 Inr p' \<Rightarrow> p'
               | Inl m \<Rightarrow>
                   set_textContent thinkingMessageElement
                     (js ''Gagal mendapatkan respon dari server: '' @ m)
                     (p\<lparr>log := log p @ [Console_error m]\<rparr>))
      in p\<lparr>log := log p @ [Scroll_to_bottom]\<rparr>)"

text \<open>One submission with nothing else happening between the request and its answer.\<close>

definition submit :: "'n host \<Rightarrow> 'n fetch_result \<Rightarrow> page \<Rightarrow> page" where
  "submit h r p =
     (case submit_begin p of
        (None, p') \<Rightarrow> p'
      | (Some thinkingMessageElement, p') \<Rightarrow> submit_complete h thinkingMessageElement r p')"

subsection \<open>Reading the log\<close>

fun requests :: "effect list \<Rightarrow> request list" where
  "requests [] = []"
| "requests (Fetch r # es) = r # requests es"
| "requests (e # es) = requests es"

fun innerHTML_writes :: "effect list \<Rightarrow> jsstring list" where
  "innerHTML_writes [] = []"
| "innerHTML_writes (Assign_innerHTML i s # es) = s # innerHTML_writes es"
| "innerHTML_writes (e # es) = innerHTML_writes es"

fun textContent_writes :: "effect list \<Rightarrow> jsstring list" where
  "textContent_writes [] = []"
| "textContent_writes (Assign_textContent i s # es) = s # textContent_writes es"
| "textContent_writes (e # es) = textContent_writes es"

fun occurrences :: "jsstring \<Rightarrow> jsstring \<Rightarrow> nat" where
  \<comment> \<open>at how many positions the pattern starts\<close>
  "occurrences pat [] = 0"
| "occurrences pat (c # cs) = (if prefix pat (c # cs) then 1 else 0) + occurrences pat cs"

subsection \<open>Restricted HTML\<close>





subsection \<open>A host and a page for examples\<close>

definition sample_host :: "int host" where
  "sample_host =
     \<lparr>number_truthy = (\<lambda>n. n \<noteq> 0),
      ToString_other = (\<lambda>v. Inr (js ''[object Object]'')),
      not_a_function = js ''text.replace is not a function''\<rparr>"

definition sample_page :: page where
  "sample_page = \<lparr>input_value = js ''  hi '', chat_box = [], log = []\<rparr>"

section \<open>Properties of the formatter on given inputs\<close>

text \<open>
  C3. The input \<open>* a\<close>, newline, \<open>* b\<close> gives one list container holding the two items
  \<open>a\<close> and \<open>b\<close>; no line break stands right before the container or right after its
  close. (The newline between the two lines becomes a line break between the two items,
  inside the container.)
\<close>

theorem format_two_items:
  "formatGeminiResponse (js ''* a\<newline>* b'') = js ''<ul><li>a</li><br><li>b</li></ul>''
   \<and> occurrences (js ''<ul>'') (formatGeminiResponse (js ''* a\<newline>* b'')) = 1
   \<and> occurrences (js ''</ul>'') (formatGeminiResponse (js ''* a\<newline>* b'')) = 1
   \<and> occurrences (js ''<li>'') (formatGeminiResponse (js ''* a\<newline>* b'')) = 2
   \<and> occurrences (js ''<br><ul>'') (formatGeminiResponse (js ''* a\<newline>* b'')) = 0
   \<and> occurrences (js ''</ul><br>'') (formatGeminiResponse (js ''* a\<newline>* b'')) = 0"
proof -
  have out: "formatGeminiResponse (js ''* a\<newline>* b'') = js ''<ul><li>a</li><br><li>b</li></ul>''"
    by (simp add: formatGeminiResponse_def js_def LineTerminator_def)
  show ?thesis
    unfolding out by (simp add: js_def)
qed

text \<open>
  C1. Two runs of list items with the line \<open>x\<close> between them come out in one container,
  which holds both runs and the line between them: the group \<open>.*\<close> of the container's
  pattern runs from the first item to the end of the last one.
\<close>

theorem format_two_runs_one_container:
  "formatGeminiResponse (js ''* a\<newline>x\<newline>* b'') = js ''<ul><li>a</li><br>x<br><li>b</li></ul>''
   \<and> occurrences (js ''<ul>'') (formatGeminiResponse (js ''* a\<newline>x\<newline>* b'')) = 1"
proof -
  have out: "formatGeminiResponse (js ''* a\<newline>x\<newline>* b'')
               = js ''<ul><li>a</li><br>x<br><li>b</li></ul>''"
    by (simp add: formatGeminiResponse_def js_def LineTerminator_def)
  show ?thesis
    unfolding out by (simp add: js_def)
qed

section \<open>Properties of the formatter on every input\<close>

lemma stars_eq: "js ''**'' = [0x2A, 0x2A]"
  by (simp add: js_def)

lemma lazy_until_stars_Some:
  "lazy_until_stars xs = Some (g, r) \<Longrightarrow> xs = g @ js ''**'' @ r \<and> (\<forall>c\<in>set g. \<not> LineTerminator c)"
proof (induction xs arbitrary: g)
  case Nil
  then show ?case by simp
next
  case (Cons c cs)
  show ?case
  proof (cases "prefix (js ''**'') (c # cs)")
    case True
    then obtain zs where "c # cs = js ''**'' @ zs" by (auto simp: prefix_def)
    with Cons.prems True show ?thesis by (simp add: stars_eq)
  next
    case False
    with Cons.prems obtain g' where "lazy_until_stars cs = Some (g', r)" "g = c # g'" "\<not> LineTerminator c"
      by (auto split: if_splits option.splits)
    with Cons.IH [of g'] show ?thesis by simp
  qed
qed



lemma bold_no_pair:
  assumes "\<not> (\<exists>pre mid post. xs = pre @ js ''**'' @ mid @ js ''**'' @ post
                 \<and> (\<forall>c\<in>set mid. \<not> LineTerminator c))"
  shows "bold xs = xs"
  using assms
proof (induction xs)
  case Nil
  then show ?case by simp
next
  case (Cons c cs)
  have tail: "\<not> (\<exists>pre mid post. cs = pre @ js ''**'' @ mid @ js ''**'' @ post
                 \<and> (\<forall>c\<in>set mid. \<not> LineTerminator c))"
  proof
    assume "\<exists>pre mid post. cs = pre @ js ''**'' @ mid @ js ''**'' @ post
                 \<and> (\<forall>c\<in>set mid. \<not> LineTerminator c)"
    then obtain pre mid post where "cs = pre @ js ''**'' @ mid @ js ''**'' @ post"
        "\<forall>c\<in>set mid. \<not> LineTerminator c" by blast
    then have "c # cs = (c # pre) @ js ''**'' @ mid @ js ''**'' @ post" by simp
    with \<open>\<forall>c\<in>set mid. \<not> LineTerminator c\<close> Cons.prems show False by blast
  qed
  have none: "lazy_until_stars (drop 2 (c # cs)) = None" if p: "prefix (js ''**'') (c # cs)"
  proof (rule ccontr)
    assume "lazy_until_stars (drop 2 (c # cs)) \<noteq> None"
    then obtain g r where s: "lazy_until_stars (drop 2 (c # cs)) = Some (g, r)" by auto
    from p obtain zs where z: "c # cs = js ''**'' @ zs" by (auto simp: prefix_def)
    then have "drop 2 (c # cs) = zs" by (simp add: stars_eq)
    with lazy_until_stars_Some [OF s] have "zs = g @ js ''**'' @ r" "\<forall>c\<in>set g. \<not> LineTerminator c"
      by simp_all
    with z have "c # cs = [] @ js ''**'' @ g @ js ''**'' @ r" by simp
    with \<open>\<forall>c\<in>set g. \<not> LineTerminator c\<close> Cons.prems show False by blast
  qed
  show ?case
    using Cons.IH [OF tail] none by simp
qed

lemma replace_all_absent: "p \<notin> set xs \<Longrightarrow> replace_all (p # ps) rep xs = xs"
  by (induction xs) simp_all

lemma wrap_lists_absent: "0x3C \<notin> set xs \<Longrightarrow> wrap_lists xs = xs"
  by (induction xs) (simp_all add: js_def)

lemma list_items_none:
  assumes "\<not> (b \<and> prefix (js ''* '') xs)"
    and "\<not> (\<exists>pre c post. xs = pre @ c # js ''* '' @ post \<and> LineTerminator c)"
  shows "list_items b xs = xs"
  using assms
proof (induction xs arbitrary: b)
  case Nil
  then show ?case by simp
next
  case (Cons c cs)
  have a: "\<not> (LineTerminator c \<and> prefix (js ''* '') cs)"
  proof
    assume h: "LineTerminator c \<and> prefix (js ''* '') cs"
    then obtain post where "cs = js ''* '' @ post" by (auto simp: prefix_def)
    then have "c # cs = [] @ c # js ''* '' @ post" by simp
    with h Cons.prems(2) show False by blast
  qed
  have b: "\<not> (\<exists>pre d post. cs = pre @ d # js ''* '' @ post \<and> LineTerminator d)"
  proof
    assume "\<exists>pre d post. cs = pre @ d # js ''* '' @ post \<and> LineTerminator d"
    then obtain pre d post where "cs = pre @ d # js ''* '' @ post" "LineTerminator d" by blast
    then have "c # cs = (c # pre) @ d # js ''* '' @ post \<and> LineTerminator d" by simp
    with Cons.prems(2) show False by blast
  qed
  from Cons.IH [OF a b] Cons.prems(1) show ?case by auto
qed

lemma no_star_no_pair:
  "0x2A \<notin> set xs \<Longrightarrow>
   \<not> (\<exists>pre mid post. xs = pre @ js ''**'' @ mid @ js ''**'' @ post
          \<and> (\<forall>c\<in>set mid. \<not> LineTerminator c))"
  by (auto simp: stars_eq)

lemma no_star_no_item:
  "0x2A \<notin> set xs \<Longrightarrow>
   \<not> prefix (js ''* '') xs
   \<and> \<not> (\<exists>pre c post. xs = pre @ c # js ''* '' @ post \<and> LineTerminator c)"
  by (auto simp: js_def prefix_def)

text \<open>
  C8. On text without \<open><\<close>, \<open>>\<close> and newline, without a pair of \<open>**\<close> on one line,
  and without a line that begins with \<open>* \<close> (a line begins at the start of the text and
  after a line terminator, as \<open>^\<close> reads it), the formatter returns its input; so
  formatting twice is formatting once, and the empty string gives the empty string.
\<close>

theorem plain_text_unchanged:
  assumes "0x3C \<notin> set t" and "0x3E \<notin> set t" and "0x0A \<notin> set t"
    and "\<not> (\<exists>pre mid post. t = pre @ js ''**'' @ mid @ js ''**'' @ post
               \<and> (\<forall>c\<in>set mid. \<not> LineTerminator c))"
    and "\<not> prefix (js ''* '') t"
    and "\<not> (\<exists>pre c post. t = pre @ c # js ''* '' @ post \<and> LineTerminator c)"
  shows "formatGeminiResponse t = t
       \<and> formatGeminiResponse (formatGeminiResponse t) = formatGeminiResponse t
       \<and> formatGeminiResponse [] = []"
proof -
  have lt: "js ''<'' = [0x3C]" and gt: "js ''>'' = [0x3E]"
    and b1: "js ''<br><ul>'' = 0x3C # js ''br><ul>''" and b2: "js ''</ul><br>'' = 0x3C # js ''/ul><br>''"
    by (simp_all add: js_def)
  have e: "replace_all (js ''>'') (js ''&gt;'') (replace_all (js ''<'') (js ''&lt;'') t) = t"
    using assms(1,2) by (simp add: lt gt replace_all_absent)
  have bo: "bold t = t" using assms(4) by (rule bold_no_pair)
  have li: "list_items True t = t" using assms(5,6) by (simp add: list_items_none)
  have ul: "wrap_lists t = t" using assms(1) by (rule wrap_lists_absent)
  have br: "replace_all [0x0A] (js ''<br>'') t = t" using assms(3) by (rule replace_all_absent)
  have c1: "replace_all (js ''<br><ul>'') (js ''<ul>'') t = t"
    unfolding b1 using assms(1) by (rule replace_all_absent)
  have c2: "replace_all (js ''</ul><br>'') (js ''</ul>'') t = t"
    unfolding b2 using assms(1) by (rule replace_all_absent)
  have f: "formatGeminiResponse t = t"
    by (simp add: formatGeminiResponse_def e bo li ul br c1 c2)
  have n: "formatGeminiResponse [] = []"
    by (simp add: formatGeminiResponse_def js_def)
  show ?thesis by (simp add: f n)
qed

theorem plain_text_unchanged_witness:
  "formatGeminiResponse (js ''Halo, apa kabar?'') = js ''Halo, apa kabar?''"
proof -
  let ?t = "js ''Halo, apa kabar?''"
  have s: "0x2A \<notin> set ?t" by (simp add: js_def)
  have a: "0x3C \<notin> set ?t" "0x3E \<notin> set ?t" "0x0A \<notin> set ?t" by (simp_all add: js_def)
  show ?thesis
    using plain_text_unchanged [OF a no_star_no_pair [OF s] no_star_no_item [OF s, THEN conjunct1]
        no_star_no_item [OF s, THEN conjunct2]]
    by simp
qed













subsection \<open>escape\<close>



subsection \<open>bold\<close>


subsection \<open>list items\<close>





subsection \<open>the list container\<close>




subsection \<open>line breaks\<close>


subsection \<open>removing a line break next to a container\<close>













subsection \<open>The bold step on every string\<close>




















section \<open>Properties of the submit handler\<close>



lemma trim_all_trimmed: "\<forall>c\<in>set s. trimmed c \<Longrightarrow> trim s = []"
proof -
  assume "\<forall>c\<in>set s. trimmed c"
  then have "dropWhile trimmed s = []" by simp
  then show ?thesis by (simp add: trim_def del: dropWhile_eq_Nil_conv)
qed

lemma requests_append: "requests (es @ fs) = requests es @ requests fs"
  by (induction es rule: requests.induct) simp_all

lemma innerHTML_writes_append: "innerHTML_writes (es @ fs) = innerHTML_writes es @ innerHTML_writes fs"
  by (induction es rule: innerHTML_writes.induct) simp_all

lemma textContent_writes_append: "textContent_writes (es @ fs) = textContent_writes es @ textContent_writes fs"
  by (induction es rule: textContent_writes.induct) simp_all

text \<open>
  C6. When every code unit of the input field is one that \<open>trim\<close> strips (white
  space or a line terminator; the empty input among them), the handler only prevents the
  form's default action: nothing is appended to the chat box, the input field keeps its
  value, and no request is sent, whatever the network would have answered.
\<close>

theorem blank_input_rejected:
  assumes "\<forall>c\<in>set (input_value p). trimmed c"
  shows "submit_begin p = (None, p\<lparr>log := log p @ [Prevent_default]\<rparr>)
       \<and> submit h r p = p\<lparr>log := log p @ [Prevent_default]\<rparr>
       \<and> chat_box (submit h r p) = chat_box p
       \<and> input_value (submit h r p) = input_value p
       \<and> requests (log (submit h r p)) = requests (log p)"
  using assms by (simp add: submit_begin_def submit_def trim_all_trimmed requests_append)




theorem blank_input_rejected_witness:
  "list_all trimmed (js ''   '')
   \<and> submit sample_host (Rejected []) \<lparr>input_value = js ''   '', chat_box = [], log = []\<rparr>
       = \<lparr>input_value = js ''   '', chat_box = [], log = [Prevent_default]\<rparr>"
proof -
  have w: "\<forall>c\<in>set (input_value \<lparr>input_value = js ''   '', chat_box = [], log = []\<rparr>). trimmed c"
    by (simp add: js_def trimmed_def WhiteSpace_def)
  have l: "list_all trimmed (js ''   '')"
    by (simp add: js_def trimmed_def WhiteSpace_def)
  show ?thesis
    using blank_input_rejected [OF w, of sample_host "Rejected []"] l by simp
qed

lemma trim_sample: "trim (js ''  hi '') = js ''hi''"
  by (simp add: trim_def js_def trimmed_def WhiteSpace_def LineTerminator_def)

lemma requests_submit_complete:
  "requests (log (submit_complete h i r q)) = requests (log q)"
  by (auto simp: submit_complete_def try_block_def set_innerHTML_def set_textContent_def
        requests_append split: fetch_result.splits sum.splits body.splits option.splits json.splits)

lemma submit_begin_sent:
  "trim (input_value p) \<noteq> [] \<Longrightarrow>
   submit_begin p =
     (Some (Suc (length (chat_box p))),
      p\<lparr>input_value := [],
        chat_box := chat_box p @
          [\<lparr>classes = [js ''message'', js ''user''], content = InnerHTML (trim (input_value p))\<rparr>,
           \<lparr>classes = [js ''message'', js ''bot''],
            content = InnerHTML (js ''Gemini sedang berpikir...'')\<rparr>],
        log := log p @
          [Prevent_default,
           Assign_innerHTML (length (chat_box p)) (trim (input_value p)), Scroll_to_bottom,
           Assign_innerHTML (Suc (length (chat_box p))) (js ''Gemini sedang berpikir...''),
           Scroll_to_bottom,
           Fetch (chat_request (trim (input_value p)))]\<rparr>)"
  by (simp add: submit_begin_def appendMessage_def Let_def)

lemma requests_submit_begin:
  "trim (input_value p) \<noteq> [] \<Longrightarrow>
   requests (log (snd (submit_begin p))) = requests (log p) @ [chat_request (trim (input_value p))]"
  by (simp add: submit_begin_sent requests_append)

lemma chat_request_body:
  \<open>body (chat_request m) = js ''{"message":[{"role":"user","content":'' @ QuoteJSONString m @ js ''}]}''\<close>
  by (simp add: chat_request_def QuoteJSONString_def js_def quote_unit_def)

text \<open>
  C9. A submission whose trimmed input is not empty sends exactly one request, before the
  first \<open>await\<close>; the rest of the handler sends none. The request is a POST to
  \<open>/api/chat\<close> with the header \<open>Content-Type: application/json\<close>, and its body is the
  JSON text of an object whose \<open>message\<close> is an array of the single object with
  \<open>role\<close> \<open>user\<close> and, as \<open>content\<close>, the input the handler submits, which is the
  field's value trimmed.
\<close>

theorem one_post_request:
  assumes "trim (input_value p) \<noteq> []"
  shows \<open>requests (log (submit h r p)) = requests (log p) @ [chat_request (trim (input_value p))]
       \<and> requests (log (snd (submit_begin p))) = requests (log p) @ [chat_request (trim (input_value p))]
       \<and> requests (log (submit_complete h i r q)) = requests (log q)
       \<and> url (chat_request (trim (input_value p))) = js ''/api/chat''
       \<and> http_method (chat_request (trim (input_value p))) = js ''POST''
       \<and> headers (chat_request (trim (input_value p))) = [(js ''Content-Type'', js ''application/json'')]
       \<and> body (chat_request (trim (input_value p)))
           = js ''{"message":[{"role":"user","content":'' @ QuoteJSONString (trim (input_value p)) @ js ''}]}''\<close>
proof -
  have "requests (log (submit h r p)) = requests (log p) @ [chat_request (trim (input_value p))]"
    using assms requests_submit_begin [of p] requests_submit_complete [of h _ r "snd (submit_begin p)"]
    by (auto simp: submit_def split: prod.splits option.splits)
  then show ?thesis
    using assms by (simp add: requests_submit_begin requests_submit_complete chat_request_body)
        (simp add: chat_request_def)
qed

theorem one_post_request_witness:
  \<open>trim (input_value sample_page) \<noteq> []
   \<and> requests (log (submit sample_host (Rejected (js ''Failed to fetch'')) sample_page))
       = [\<lparr>url = js ''/api/chat'', http_method = js ''POST'',
           headers = [(js ''Content-Type'', js ''application/json'')],
           body = js ''{"message":[{"role":"user","content":"hi"}]}''\<rparr>]\<close>
proof -
  have t: "trim (input_value sample_page) = js ''hi''"
    by (simp add: sample_page_def trim_sample)
  then have ne: "trim (input_value sample_page) \<noteq> []" by (simp add: js_def)
  have b: \<open>chat_request (js ''hi'') = \<lparr>url = js ''/api/chat'', http_method = js ''POST'',
           headers = [(js ''Content-Type'', js ''application/json'')],
           body = js ''{"message":[{"role":"user","content":"hi"}]}''\<rparr>\<close>
    by (simp add: chat_request_def QuoteJSONString_def js_def quote_unit_def)
  have l: "log sample_page = []" by (simp add: sample_page_def)
  show ?thesis
    using one_post_request [OF ne, of sample_host "Rejected (js ''Failed to fetch'')"] ne
    by (simp add: t b l)
qed





lemma submit_begin_sample:
  "submit_begin sample_page =
     (Some 1,
      \<lparr>input_value = [],
       chat_box =
         [\<lparr>classes = [js ''message'', js ''user''], content = InnerHTML (js ''hi'')\<rparr>,
          \<lparr>classes = [js ''message'', js ''bot''],
           content = InnerHTML (js ''Gemini sedang berpikir...'')\<rparr>],
       log =
         [Prevent_default,
          Assign_innerHTML 0 (js ''hi''), Scroll_to_bottom,
          Assign_innerHTML 1 (js ''Gemini sedang berpikir...''), Scroll_to_bottom,
          Fetch (chat_request (js ''hi''))]\<rparr>)"
proof -
  have t: "trim (input_value sample_page) = js ''hi''"
    by (simp add: sample_page_def trim_sample)
  then have ne: "trim (input_value sample_page) \<noteq> []" by (simp add: js_def)
  show ?thesis
    unfolding submit_begin_sent [OF ne] t by (simp add: sample_page_def)
qed






lemma submit_complete_formatted:
  assumes "response_ok status" and "get_prop data (js ''result'') = Some (JStr text)" and "text \<noteq> []"
  shows "submit_complete h i (Responded status (Json data)) q =
           q\<lparr>chat_box := (chat_box q)[i := (chat_box q ! i)
                   \<lparr>content := InnerHTML (formatGeminiResponse text)\<rparr>],
             log := log q @ [Assign_innerHTML i (formatGeminiResponse text), Scroll_to_bottom]\<rparr>"
proof -
  obtain kvs where "data = JObj kvs"
    using assms(2) by (cases data) simp_all
  then show ?thesis
    using assms by (simp add: submit_complete_def try_block_def set_innerHTML_def)
qed

lemma submit_complete_cases:
  "(\<exists>status data text. r = Responded status (Json data) \<and> response_ok status
        \<and> get_prop data (js ''result'') = Some (JStr text) \<and> text \<noteq> [])
   \<or> (\<exists>m. submit_complete h i r q =
             q\<lparr>chat_box := (chat_box q)[i := (chat_box q ! i)\<lparr>content := TextContent m\<rparr>],
               log := log q @ [Assign_textContent i m, Scroll_to_bottom]\<rparr>
           \<and> m = js ''Maaf, tidak ada respon yang diterima.'')
   \<or> (\<exists>e. submit_complete h i r q =
             q\<lparr>chat_box := (chat_box q)[i := (chat_box q ! i)
                     \<lparr>content := TextContent (js ''Gagal mendapatkan respon dari server: '' @ e)\<rparr>],
               log := log q @ [Console_error e,
                      Assign_textContent i (js ''Gagal mendapatkan respon dari server: '' @ e),
                      Scroll_to_bottom]\<rparr>)"
  by (auto simp: submit_complete_def try_block_def set_textContent_def
        split: fetch_result.splits body.splits sum.splits option.splits json.splits)


text \<open>
  C10, amended. The handler assigns through \<open>innerHTML\<close> in three places: the user's
  trimmed input and the fixed placeholder text before the request, and the formatter's
  output when the response is successful and its \<open>result\<close> is a non-empty string. In
  every other outcome the handler assigns exactly one string, through \<open>textContent\<close>:
  the fixed no-response sentence or \<open>Gagal mendapatkan respon dari server: \<close> followed
  by the error's message.
\<close>

theorem innerHTML_three_sources:
  "innerHTML_writes (log (snd (submit_begin p)))
     = innerHTML_writes (log p)
       @ (if trim (input_value p) = [] then []
          else [trim (input_value p), js ''Gemini sedang berpikir...''])
   \<and> textContent_writes (log (snd (submit_begin p))) = textContent_writes (log p)
   \<and> (\<forall>status data text.
         r = Responded status (Json data) \<and> response_ok status
         \<and> get_prop data (js ''result'') = Some (JStr text) \<and> text \<noteq> [] \<longrightarrow>
           innerHTML_writes (log (submit_complete h i r q))
             = innerHTML_writes (log q) @ [formatGeminiResponse text]
           \<and> textContent_writes (log (submit_complete h i r q)) = textContent_writes (log q))
   \<and> (\<not> (\<exists>status data text.
            r = Responded status (Json data) \<and> response_ok status
            \<and> get_prop data (js ''result'') = Some (JStr text) \<and> text \<noteq> []) \<longrightarrow>
           innerHTML_writes (log (submit_complete h i r q)) = innerHTML_writes (log q)
           \<and> (\<exists>m. textContent_writes (log (submit_complete h i r q))
                      = textContent_writes (log q) @ [m]
                  \<and> (m = js ''Maaf, tidak ada respon yang diterima.''
                       \<or> (\<exists>e. m = js ''Gagal mendapatkan respon dari server: '' @ e))))"
proof -
  have b1: "innerHTML_writes (log (snd (submit_begin p)))
     = innerHTML_writes (log p)
       @ (if trim (input_value p) = [] then []
          else [trim (input_value p), js ''Gemini sedang berpikir...''])"
    by (cases "trim (input_value p) = []")
       (simp_all add: submit_begin_sent innerHTML_writes_append, simp add: submit_begin_def innerHTML_writes_append)
  have b2: "textContent_writes (log (snd (submit_begin p))) = textContent_writes (log p)"
    by (cases "trim (input_value p) = []")
       (simp_all add: submit_begin_sent textContent_writes_append, simp add: submit_begin_def textContent_writes_append)
  have c1: "innerHTML_writes (log (submit_complete h i r q))
             = innerHTML_writes (log q) @ [formatGeminiResponse t]
           \<and> textContent_writes (log (submit_complete h i r q)) = textContent_writes (log q)"
    if "r = Responded status (Json data)" "response_ok status"
       "get_prop data (js ''result'') = Some (JStr t)" "t \<noteq> []" for status data t
    using that
    by (simp add: submit_complete_formatted innerHTML_writes_append textContent_writes_append)
  have c2: "innerHTML_writes (log (submit_complete h i r q)) = innerHTML_writes (log q)
           \<and> (\<exists>m. textContent_writes (log (submit_complete h i r q))
                      = textContent_writes (log q) @ [m]
                  \<and> (m = js ''Maaf, tidak ada respon yang diterima.''
                       \<or> (\<exists>e. m = js ''Gagal mendapatkan respon dari server: '' @ e)))"
    if no: "\<not> (\<exists>status data text.
            r = Responded status (Json data) \<and> response_ok status
            \<and> get_prop data (js ''result'') = Some (JStr text) \<and> text \<noteq> [])"
  proof -
    from submit_complete_cases [of r h i q] no
    consider (fixed) "submit_complete h i r q =
             q\<lparr>chat_box := (chat_box q)[i := (chat_box q ! i)
                     \<lparr>content := TextContent (js ''Maaf, tidak ada respon yang diterima.'')\<rparr>],
               log := log q @ [Assign_textContent i (js ''Maaf, tidak ada respon yang diterima.''),
                               Scroll_to_bottom]\<rparr>"
      | (failed) e where "submit_complete h i r q =
             q\<lparr>chat_box := (chat_box q)[i := (chat_box q ! i)
                     \<lparr>content := TextContent (js ''Gagal mendapatkan respon dari server: '' @ e)\<rparr>],
               log := log q @ [Console_error e,
                      Assign_textContent i (js ''Gagal mendapatkan respon dari server: '' @ e),
                      Scroll_to_bottom]\<rparr>"
      by blast
    then show ?thesis
    proof cases
      case fixed
      show ?thesis unfolding fixed
        by (simp add: innerHTML_writes_append textContent_writes_append)
    next
      case failed
      show ?thesis unfolding failed
        by (simp add: innerHTML_writes_append textContent_writes_append)
    qed
  qed
  show ?thesis
    using b1 b2 c1 c2 by blast
qed

lemma format_hi_there:
  "formatGeminiResponse (js ''Hi **there**'') = js ''Hi <strong>there</strong>''"
  by (simp add: formatGeminiResponse_def js_def LineTerminator_def)

theorem innerHTML_three_sources_witness:
  "innerHTML_writes (log (submit sample_host
      (Responded 200 (Json (JObj [(js ''result'', JStr (js ''Hi **there**''))]))) sample_page))
     = [js ''hi'', js ''Gemini sedang berpikir...'', js ''Hi <strong>there</strong>'']
   \<and> textContent_writes (log (submit sample_host
      (Responded 200 (Json (JObj [(js ''result'', JStr (js ''Hi **there**''))]))) sample_page))
     = []"
proof -
  let ?r = "Responded 200 (Json (JObj [(js ''result'', JStr (js ''Hi **there**''))])) :: int fetch_result"
  let ?q = "snd (submit_begin sample_page)"
  have ok: "response_ok 200" by (simp add: response_ok_def)
  have g: "get_prop (JObj [(js ''result'', JStr (js ''Hi **there**''))] :: int json) (js ''result'')
             = Some (JStr (js ''Hi **there**''))" by simp
  have ne: "js ''Hi **there**'' \<noteq> []" by (simp add: js_def)
  have "innerHTML_writes (log (submit_complete sample_host 1 ?r ?q))
             = innerHTML_writes (log ?q) @ [formatGeminiResponse (js ''Hi **there**'')]
           \<and> textContent_writes (log (submit_complete sample_host 1 ?r ?q)) = textContent_writes (log ?q)"
    using innerHTML_three_sources [of sample_page ?r sample_host 1 ?q] ok g ne by blast
  then show ?thesis
    by (simp add: submit_def submit_begin_sample format_hi_there)
qed

text \<open>
  C10 as stated fails on any submission: with the input \<open>hi\<close> and a request that fails
  there are two assignments through \<open>innerHTML\<close>, and the second is the placeholder
  text, which is neither the user's input nor a formatter output for a successful result.
\<close>

theorem placeholder_innerHTML_counterexample:
  "innerHTML_writes (log (submit sample_host (Rejected (js ''Failed to fetch'')) sample_page))
     = [js ''hi'', js ''Gemini sedang berpikir...'']
   \<and> trim (input_value sample_page) = js ''hi''
   \<and> js ''Gemini sedang berpikir...'' \<noteq> js ''hi''"
proof -
  have "innerHTML_writes (log (submit sample_host (Rejected (js ''Failed to fetch'')) sample_page))
     = [js ''hi'', js ''Gemini sedang berpikir...'']"
    by (simp add: submit_def submit_begin_sample submit_complete_def try_block_def
          set_textContent_def)
  moreover have "trim (input_value sample_page) = js ''hi''"
    by (simp add: sample_page_def trim_sample)
  moreover have "js ''Gemini sedang berpikir...'' \<noteq> js ''hi''"
    by (simp add: js_def)
  ultimately show ?thesis by simp
qed

end
